theory Spec2Isabelle
  imports Complex_Main "HOL-Library.Sublist" "HOL-Library.Multiset"
begin

section \<open>Cell-line screening simulator: the model of \<open>cell_line_screening.py\<close>\<close>

text \<open>
  Python floats are modelled by the real numbers: \<open>+\<close>, \<open>*\<close>, \<open>/\<close>, \<open>min\<close>, \<open>max\<close> are
  the exact operations and \<open>np.exp\<close> is the exponential function. Rounding error of
  the binary representation is outside the model.
\<close>

subsection \<open>Python built-ins\<close>

text \<open>
  \<open>round(x, ndigits)\<close>: the nearest multiple of \<open>10 ^ -ndigits\<close>, an exact tie going to
  the even neighbour.
\<close>

definition round_half_even :: "real \<Rightarrow> int" where
  "round_half_even x =
     (let f = \<lfloor>x\<rfloor>; r = x - of_int f
      in if r < 1 / 2 then f
         else if 1 / 2 < r then f + 1
         else if even f then f else f + 1)"

definition py_round :: "real \<Rightarrow> nat \<Rightarrow> real" where
  "py_round x ndigits = of_int (round_half_even (x * 10 ^ ndigits)) / 10 ^ ndigits"

text \<open>
  Truth value of an attribute that is \<open>None\<close> or a float, as tested by
  \<open>... if self.day7_titer else 0\<close>: \<open>None\<close> and \<open>0.0\<close> are false.
\<close>

definition truthy :: "real option \<Rightarrow> bool" where
  "truthy v = (case v of None \<Rightarrow> False | Some x \<Rightarrow> x \<noteq> 0)"

subsection \<open>The random source\<close>

text \<open>
  The module draws from the process-wide generator of \<open>random\<close>. The model receives
  the outcomes of the draws as arguments. One \<open>draws\<close> record holds the six outcomes
  that one call of \<open>CellLineClone.__init__\<close> consumes, in the order of the calls:
  the values returned by the three \<open>random.gauss\<close> calls, the positions picked by the two
  \<open>random.choice\<close> calls in their four-element lists, and the value of \<open>random()\<close>
  (in the interval from 0, included, to 1, excluded) from which
  \<open>random.uniform(a, b)\<close> computes \<open>a + (b - a) * random()\<close>.
\<close>

datatype index4 = I0 | I1 | I2 | I3

fun position :: "index4 \<Rightarrow> nat" where
  "position I0 = 0"
| "position I1 = 1"
| "position I2 = 2"
| "position I3 = 3"

definition choice :: "'a list \<Rightarrow> index4 \<Rightarrow> 'a" where
  "choice seq k = seq ! position k"

definition uniform :: "real \<Rightarrow> real \<Rightarrow> real \<Rightarrow> real" where
  "uniform a b u = a + (b - a) * u"

record draws =
  gauss_base_titer :: real
  gauss_growth_rate :: real
  gauss_viability :: real
  choice_stability :: index4
  choice_glycosylation :: index4
  random_aggregation :: real

definition unit_interval :: "real \<Rightarrow> bool" where
  "unit_interval u = (0 \<le> u \<and> u < 1)"

subsection \<open>class CellLineClone\<close>

record CellLineClone =
  clone_id :: string
  parent :: string
  base_titer :: real
  growth_rate :: real
  viability :: real
  stability :: bool
  glycosylation_pattern :: string
  aggregation_level :: real
  day0_density :: real
  day3_density :: "real option"
  day7_density :: "real option"
  day7_viability :: "real option"
  day7_titer :: "real option"

definition CellLineClone_init :: "string \<Rightarrow> string \<Rightarrow> draws \<Rightarrow> CellLineClone" where
  "CellLineClone_init cid parent_line dr =
     (let base_titer0 = gauss_base_titer dr;
          growth_rate0 = gauss_growth_rate dr;
          viability0 = gauss_viability dr;
          stability0 = choice [True, True, True, False] (choice_stability dr);
          glycosylation0 = choice [''Optimal'', ''Optimal'', ''Good'', ''Poor'']
                             (choice_glycosylation dr);
          aggregation0 = uniform 0.5 8.0 (random_aggregation dr)
      in \<lparr> clone_id = cid,
           parent = parent_line,
           base_titer = max 0.1 (min 6.0 base_titer0),
           growth_rate = max 0.015 (min 0.050 growth_rate0),
           viability = max 60 (min 99 viability0),
           stability = stability0,
           glycosylation_pattern = glycosylation0,
           aggregation_level = aggregation0,
           day0_density = 500000,
           day3_density = None,
           day7_density = None,
           day7_viability = None,
           day7_titer = None \<rparr>)"

definition grow :: "CellLineClone \<Rightarrow> real \<Rightarrow> real \<times> real" where
  "grow c days =
     (let time_hours = days * 24;
          peak_density = 8000000;
          density = day0_density c * exp (growth_rate c * time_hours);
          density = min density peak_density;
          viab = viability c - days * 0.5;
          viab = max 60 viab
      in (density, viab))"

text \<open>
  \<open>produce_antibody\<close> consumes one draw, \<open>random.gauss(1.0, 0.1)\<close>; its outcome is the
  argument \<open>noise\<close>.
\<close>

definition produce_antibody :: "CellLineClone \<Rightarrow> real \<Rightarrow> real \<Rightarrow> real" where
  "produce_antibody c days noise =
     (let (density, viab) = grow c days;
          qP = base_titer c * 10;
          titer = (base_titer c * days / 7) * (viab / 100);
          titer = titer * noise
      in max 0.1 titer)"

definition score :: "CellLineClone \<Rightarrow> real" where
  "score c =
     (let titer_score =
            (if truthy (day7_titer c) then min 1.0 (the (day7_titer c) / 5.0) else 0);
          viability_score =
            (if truthy (day7_viability c) then the (day7_viability c) / 100 else 0);
          growth_score = min 1.0 (growth_rate c / 0.045);
          stability_bonus = (if stability c then 0.2 else 0);
          quality_bonus = (if glycosylation_pattern c = ''Optimal'' then 0.15 else 0);
          quality_penalty = (if 5.0 < aggregation_level c then - 0.1 else 0);
          total_score =
            titer_score * 0.40 + viability_score * 0.25 + growth_score * 0.10
            + stability_bonus + quality_bonus + quality_penalty
      in py_round total_score 3)"

text \<open>
  The bounds that \<open>__init__\<close> clamps the intrinsic parameters to, with the constant
  starting density. No method assigns these attributes afterwards.
\<close>

definition intrinsic_ok :: "CellLineClone \<Rightarrow> bool" where
  "intrinsic_ok c =
     (0.1 \<le> base_titer c \<and> base_titer c \<le> 6.0 \<and>
      0.015 \<le> growth_rate c \<and> growth_rate c \<le> 0.050 \<and>
      60 \<le> viability c \<and> viability c \<le> 99 \<and>
      day0_density c = 500000)"

text \<open>A fixed outcome of the six draws, for evaluating the model at concrete inputs.\<close>

definition sample_draws :: draws where
  "sample_draws =
     \<lparr> gauss_base_titer = 3, gauss_growth_rate = 0.03, gauss_viability = 95,
       choice_stability = I0, choice_glycosylation = I0, random_aggregation = 0.2 \<rparr>"

subsection \<open>Formatting the clone identifier\<close>

text \<open>
  \<open>f"Clone_{i+1:03d}"\<close>: the decimal digits of \<open>i + 1\<close>, which is positive, padded
  with zeros on the left to a width of three.
\<close>

definition digit_char :: "nat \<Rightarrow> char" where
  "digit_char d = ''0123456789'' ! d"

fun digits :: "nat \<Rightarrow> string" where
  "digits n = (if n < 10 then [digit_char n] else digits (n div 10) @ [digit_char (n mod 10)])"

declare digits.simps [simp del]

definition format_03d :: "nat \<Rightarrow> string" where
  "format_03d n = (let s = digits n in replicate (3 - length s) (CHR ''0'') @ s)"

text \<open>The number that a string of decimal digits denotes.\<close>

definition digit_value :: "char \<Rightarrow> nat" where
  "digit_value ch = of_char ch - 48"

definition decimal_value :: "string \<Rightarrow> nat" where
  "decimal_value s = foldl (\<lambda>acc ch. 10 * acc + digit_value ch) 0 s"

definition is_digit :: "char \<Rightarrow> bool" where
  "is_digit ch = (ch \<in> set ''0123456789'')"

subsection \<open>class AutomatedScreening\<close>

text \<open>
  The exceptions that the methods can raise. With no clone in the campaign,
  \<open>self.clones[0]\<close> in \<open>day_0_seed_plates\<close> raises \<open>IndexError\<close>, and the data
  frame built from an empty list has no column, so that \<open>df['Titer (g/L)']\<close> in
  \<open>day_7_harvest_and_analyze\<close> and \<open>df.nlargest(n, 'Score')\<close> raise \<open>KeyError\<close> on it.
  Console output is not modelled.
\<close>

datatype exn = IndexError | KeyError | ZeroDivisionError

datatype log_value = LInt int | LStr string | LFloat real

type_synonym log_entry = "(string \<times> log_value) list"

record ResultRow =
  Clone_ID :: string
  Titer :: real
  Viability :: real
  VCD :: real
  Growth_Rate :: real
  Stable :: string
  Glycosylation :: string
  Aggregates :: real
  Score :: real

text \<open>
  A data frame is either the frame without columns, which \<open>pd.DataFrame([])\<close> builds,
  or a frame with the nine columns of the result rows and its rows in their order. A
  frame with columns can be without rows: a selection of no row returns such a frame.
  \<open>pd.DataFrame(results)\<close> of a list with at least one row has the columns and the rows
  of the list, in the order of the list.
\<close>

datatype DataFrame = Empty_Frame | Frame "ResultRow list"

definition pd_DataFrame :: "ResultRow list \<Rightarrow> DataFrame" where
  "pd_DataFrame results = (if results = [] then Empty_Frame else Frame results)"

fun frame_rows :: "DataFrame \<Rightarrow> ResultRow list" where
  "frame_rows Empty_Frame = []"
| "frame_rows (Frame rs) = rs"

record AutomatedScreening =
  num_clones :: int
  plate_format :: string
  clones :: "CellLineClone list"
  screening_log :: "log_entry list"
  start_date :: int

text \<open>
  \<open>__init__\<close>: \<open>rng i\<close> holds the draws of the constructor call for \<open>range\<close> index \<open>i\<close>,
  \<open>now\<close> is the value of \<open>datetime.now()\<close>. \<open>range(num_clones)\<close> is empty for a
  \<open>num_clones\<close> that is zero or negative. The constructor has no \<open>raise\<close>.
\<close>

definition AutomatedScreening_init ::
    "int \<Rightarrow> string \<Rightarrow> (nat \<Rightarrow> draws) \<Rightarrow> int \<Rightarrow> exn + AutomatedScreening" where
  "AutomatedScreening_init n pf rng now =
     Inr \<lparr> num_clones = n,
           plate_format = pf,
           clones = map (\<lambda>i. CellLineClone_init (''Clone_'' @ format_03d (i + 1)) ''CHO-K1'' (rng i))
                        [0..<nat n],
           screening_log = [],
           start_date = now \<rparr>"

definition seeded_entry :: "CellLineClone \<Rightarrow> log_entry" where
  "seeded_entry c =
     [(''day'', LInt 0), (''clone_id'', LStr (clone_id c)), (''action'', LStr ''seeded''),
      (''volume_ul'', LInt 200), (''density_cells_ml'', LFloat (day0_density c))]"

fun day_0_loop :: "CellLineClone list \<Rightarrow> log_entry list \<Rightarrow> log_entry list" where
  "day_0_loop [] slog = slog"
| "day_0_loop (c # cs) slog = day_0_loop cs (slog @ [seeded_entry c])"

text \<open>
  The \<open>IndexError\<close> comes after the loop, from the summary line; with no clone the loop
  has appended nothing, so the state at the exception is the state before the call.
\<close>

definition day_0_seed_plates :: "AutomatedScreening \<Rightarrow> exn + AutomatedScreening" where
  "day_0_seed_plates s =
     (let slog' = day_0_loop (clones s) (screening_log s)
      in case clones s of
           [] \<Rightarrow> Inl IndexError
         | c # cs \<Rightarrow> Inr (s\<lparr>screening_log := slog'\<rparr>))"

definition fed_entry :: "CellLineClone \<Rightarrow> real \<Rightarrow> real \<Rightarrow> log_entry" where
  "fed_entry c density viab =
     [(''day'', LInt 3), (''clone_id'', LStr (clone_id c)), (''action'', LStr ''fed_and_sampled''),
      (''feed_volume_ul'', LInt 50), (''sample_volume_ul'', LInt 50),
      (''density'', LFloat density), (''viability'', LFloat viab)]"

fun day_3_loop ::
    "CellLineClone list \<Rightarrow> log_entry list \<Rightarrow> CellLineClone list \<times> log_entry list" where
  "day_3_loop [] slog = ([], slog)"
| "day_3_loop (c # cs) slog =
     (let (density, viab) = grow c 3;
          c' = c\<lparr>day3_density := Some density\<rparr>;
          slog' = slog @ [fed_entry c' density viab];
          (cs', slog'') = day_3_loop cs slog'
      in (c' # cs', slog''))"

definition day_3_feed_and_sample :: "AutomatedScreening \<Rightarrow> exn + AutomatedScreening" where
  "day_3_feed_and_sample s =
     (let (cs', slog') = day_3_loop (clones s) (screening_log s)
      in Inr (s\<lparr>clones := cs', screening_log := slog'\<rparr>))"

text \<open>
  The body of the Day-7 loop for one clone; \<open>noise\<close> is the outcome of the draw that
  \<open>produce_antibody\<close> consumes.
\<close>

definition harvest :: "CellLineClone \<Rightarrow> real \<Rightarrow> CellLineClone \<times> ResultRow" where
  "harvest c noise =
     (let (density, viab) = grow c 7;
          titer = produce_antibody c 7 noise;
          c' = c\<lparr>day7_density := Some density, day7_viability := Some viab,
                 day7_titer := Some titer\<rparr>;
          row = \<lparr> Clone_ID = clone_id c',
                  Titer = py_round titer 2,
                  Viability = py_round viab 1,
                  VCD = py_round (density / 1000000) 2,
                  Growth_Rate = py_round (growth_rate c') 4,
                  Stable = (if stability c' then ''Yes'' else ''No''),
                  Glycosylation = glycosylation_pattern c',
                  Aggregates = py_round (aggregation_level c') 1,
                  Score = score c' \<rparr>
      in (c', row))"

text \<open>\<open>noise i\<close> is the draw for the clone at position \<open>i\<close> of \<open>self.clones\<close>.\<close>

fun day_7_loop ::
    "CellLineClone list \<Rightarrow> (nat \<Rightarrow> real) \<Rightarrow> nat \<Rightarrow> CellLineClone list \<times> ResultRow list" where
  "day_7_loop [] noise i = ([], [])"
| "day_7_loop (c # cs) noise i =
     (let (c', row) = harvest c (noise i);
          (cs', results) = day_7_loop cs noise (i + 1)
      in (c' # cs', row # results))"

definition day_7_harvest_and_analyze ::
    "AutomatedScreening \<Rightarrow> (nat \<Rightarrow> real) \<Rightarrow> exn + AutomatedScreening \<times> DataFrame" where
  "day_7_harvest_and_analyze s noise =
     (let (cs', results) = day_7_loop (clones s) noise 0;
          df = pd_DataFrame results
      in case df of
           Empty_Frame \<Rightarrow> Inl KeyError
         | Frame rs \<Rightarrow> Inr (s\<lparr>clones := cs'\<rparr>, df))"

text \<open>
  Modelled from the spec: \<open>DataFrame.nlargest\<close> belongs to pandas, whose code is not
  part of the repository. The spec describes the selection as the top \<open>n\<close> rows in
  descending order of the score, ties in the original order of the rows (a stable
  sort): the rows sorted by the negated column with the insertion sort \<open>sort_key\<close>,
  cut to the first \<open>n\<close>. The function \<open>nlargest\<close> acts on the rows of a frame that has
  the column. The pandas function raises no error for a count out of range: a count
  of zero or less gives a frame without rows, a count beyond the number of rows gives
  all of them.
\<close>

definition nlargest :: "int \<Rightarrow> (ResultRow \<Rightarrow> real) \<Rightarrow> ResultRow list \<Rightarrow> ResultRow list" where
  "nlargest n column df = take (nat n) (sort_key (\<lambda>r. - column r) df)"

text \<open>
  \<open>select_top_clones\<close> assigns no attribute of \<open>self\<close>; the campaign is returned as
  it came. The method has no check of \<open>n\<close>. On the frame without columns the lookup
  of the column \<open>Score\<close> raises \<open>KeyError\<close>; on a frame with columns, also one without
  rows, the selection is a frame with the same columns.
\<close>

definition select_top_clones ::
    "AutomatedScreening \<Rightarrow> DataFrame \<Rightarrow> int \<Rightarrow> exn + AutomatedScreening \<times> DataFrame" where
  "select_top_clones s df n =
     (case df of
        Empty_Frame \<Rightarrow> Inl KeyError
      | Frame rs \<Rightarrow> (let top_clones = Frame (nlargest n Score rs) in Inr (s, top_clones)))"

text \<open>
  \<open>run_full_screening_campaign\<close> calls the four steps in their order and selects with
  \<open>n=10\<close>; the summary divides by \<open>self.num_clones\<close>. Writing the CSV file is not
  modelled.
\<close>

definition run_full_screening_campaign ::
    "AutomatedScreening \<Rightarrow> (nat \<Rightarrow> real) \<Rightarrow> exn + AutomatedScreening \<times> DataFrame \<times> DataFrame" where
  "run_full_screening_campaign s noise =
     (case day_0_seed_plates s of
        Inl e \<Rightarrow> Inl e
      | Inr s0 \<Rightarrow>
     (case day_3_feed_and_sample s0 of
        Inl e \<Rightarrow> Inl e
      | Inr s3 \<Rightarrow>
     (case day_7_harvest_and_analyze s3 noise of
        Inl e \<Rightarrow> Inl e
      | Inr (s7, results_df) \<Rightarrow>
     (case select_top_clones s7 results_df 10 of
        Inl e \<Rightarrow> Inl e
      | Inr (s8, top_clones) \<Rightarrow>
          if num_clones s8 = 0 then Inl ZeroDivisionError
          else Inr (s8, results_df, top_clones)))))"

text \<open>
  The states of a campaign that calls of the constructor and of the methods can
  produce, in any order and with any outcome of the draws.
\<close>

inductive reachable :: "AutomatedScreening \<Rightarrow> bool" where
  created: "AutomatedScreening_init n pf rng now = Inr s \<Longrightarrow> reachable s"
| seeded: "reachable s \<Longrightarrow> day_0_seed_plates s = Inr s' \<Longrightarrow> reachable s'"
| fed: "reachable s \<Longrightarrow> day_3_feed_and_sample s = Inr s' \<Longrightarrow> reachable s'"
| harvested: "reachable s \<Longrightarrow> day_7_harvest_and_analyze s noise = Inr (s', df) \<Longrightarrow> reachable s'"
| selected: "reachable s \<Longrightarrow> select_top_clones s df n = Inr (s', picked) \<Longrightarrow> reachable s'"
| finished: "reachable s \<Longrightarrow> run_full_screening_campaign s noise = Inr (s', df, picked) \<Longrightarrow> reachable s'"

text \<open>Fixed inputs for evaluating the model.\<close>

definition sample_rng :: "nat \<Rightarrow> draws" where
  "sample_rng i = sample_draws"

definition unit_noise :: "nat \<Rightarrow> real" where
  "unit_noise i = 1"

definition sample_clone :: CellLineClone where
  "sample_clone = CellLineClone_init ''Clone_001'' ''CHO-K1'' sample_draws"

definition sample_campaign :: AutomatedScreening where
  "sample_campaign =
     \<lparr> num_clones = 1, plate_format = ''96-well'', clones = [sample_clone],
       screening_log = [], start_date = 0 \<rparr>"

definition sample_row :: "string \<Rightarrow> real \<Rightarrow> ResultRow" where
  "sample_row cid sc =
     \<lparr> Clone_ID = cid, Titer = 2.75, Viability = 91.5, VCD = 8, Growth_Rate = 0.03,
       Stable = ''Yes'', Glycosylation = ''Optimal'', Aggregates = 2, Score = sc \<rparr>"

definition sample_table :: DataFrame where
  "sample_table =
     Frame [sample_row ''Clone_001'' 0.5, sample_row ''Clone_002'' 0.9,
            sample_row ''Clone_003'' 0.5]"

text \<open>
  What the Day-7 step stores: a viability that \<open>grow\<close> floors at 60 and a titer that
  \<open>produce_antibody\<close> floors at 0.1. Before the step both are \<open>None\<close>.
\<close>

definition observations_ok :: "CellLineClone \<Rightarrow> bool" where
  "observations_ok c =
     ((case day7_viability c of None \<Rightarrow> True | Some v \<Rightarrow> 60 \<le> v \<and> v \<le> 99) \<and>
      (case day7_titer c of None \<Rightarrow> True | Some t \<Rightarrow> 0.1 \<le> t))"

definition clone_ok :: "CellLineClone \<Rightarrow> bool" where
  "clone_ok c = (intrinsic_ok c \<and> observations_ok c)"

definition sample_harvested :: AutomatedScreening where
  "sample_harvested = sample_campaign\<lparr>clones := [fst (harvest sample_clone 1)]\<rparr>"

section \<open>Properties\<close>

subsection \<open>Rounding\<close>

lemma round_half_even_lower: "of_int k \<le> x \<Longrightarrow> k \<le> round_half_even x"
proof -
  assume "of_int k \<le> x"
  then have "k \<le> \<lfloor>x\<rfloor>" by (simp add: le_floor_iff)
  then show ?thesis by (simp add: round_half_even_def Let_def)
qed

lemma round_half_even_upper:
  assumes a: "x \<le> of_int k"
  shows "round_half_even x \<le> k"
proof (cases "x - of_int \<lfloor>x\<rfloor> < 1 / 2")
  case True
  from a have "\<lfloor>x\<rfloor> \<le> k" by (simp add: floor_le_iff)
  with True show ?thesis by (simp add: round_half_even_def Let_def)
next
  case False
  then have "of_int \<lfloor>x\<rfloor> < x" by linarith
  with a have "of_int \<lfloor>x\<rfloor> < (of_int k :: real)" by linarith
  then have "\<lfloor>x\<rfloor> < k" by simp
  then show ?thesis by (simp add: round_half_even_def Let_def)
qed

lemma py_round_bounds:
  assumes "of_int lo / 10 ^ n \<le> x" and "x \<le> of_int hi / 10 ^ n"
  shows "of_int lo / 10 ^ n \<le> py_round x n \<and> py_round x n \<le> of_int hi / 10 ^ n"
proof -
  have p: "(0::real) < 10 ^ n" by simp
  from assms(1) p have "of_int lo \<le> x * 10 ^ n" by (simp add: pos_divide_le_eq)
  then have l: "lo \<le> round_half_even (x * 10 ^ n)" by (rule round_half_even_lower)
  from assms(2) p have "x * 10 ^ n \<le> of_int hi" by (simp add: pos_le_divide_eq)
  then have h: "round_half_even (x * 10 ^ n) \<le> hi" by (rule round_half_even_upper)
  from l h p show ?thesis
    by (simp add: py_round_def divide_le_cancel)
qed

text \<open>
  Ties go to the even neighbour, on both sides of zero. The examples are numbers that
  a binary float holds exactly.
\<close>

lemma py_round_examples:
  "py_round 0.125 2 = 0.12" "py_round 0.375 2 = 0.38" "py_round 2.5 0 = 2"
  "py_round (- 0.125) 2 = - 0.12" "py_round 2.7449 2 = 2.74"
  by (simp_all add: py_round_def round_half_even_def Let_def)

subsection \<open>The clone model\<close>

lemma CellLineClone_init_intrinsic_ok: "intrinsic_ok (CellLineClone_init cid pl dr)"
  by (simp add: intrinsic_ok_def CellLineClone_init_def Let_def)

lemma CellLineClone_init_observations:
  "day3_density (CellLineClone_init cid pl dr) = None"
  "day7_density (CellLineClone_init cid pl dr) = None"
  "day7_viability (CellLineClone_init cid pl dr) = None"
  "day7_titer (CellLineClone_init cid pl dr) = None"
  "clone_id (CellLineClone_init cid pl dr) = cid"
  by (simp_all add: CellLineClone_init_def Let_def)

lemma CellLineClone_init_aggregation:
  assumes "unit_interval (random_aggregation dr)"
  shows "0.5 \<le> aggregation_level (CellLineClone_init cid pl dr)"
    and "aggregation_level (CellLineClone_init cid pl dr) \<le> 8.0"
  using assms by (simp_all add: CellLineClone_init_def Let_def uniform_def unit_interval_def)

lemma sample_clone_fields:
  "growth_rate sample_clone = 0.03" "stability sample_clone"
  "glycosylation_pattern sample_clone = ''Optimal''" "aggregation_level sample_clone = 2"
  "day7_titer sample_clone = None" "day7_viability sample_clone = None"
  "base_titer sample_clone = 3" "viability sample_clone = 95"
  by (simp_all add: sample_clone_def CellLineClone_init_def sample_draws_def Let_def
      choice_def uniform_def)

text \<open>
  Claim C2. \<open>grow\<close> returns the pair of the density
  \<open>min (day0_density * exp (growth_rate * days * 24)) 8e6\<close> and the viability
  \<open>max 60 (baseline viability - days * 0.5)\<close>. The result is a function of the clone's
  attributes and of \<open>days\<close> alone: \<open>grow\<close> takes no draw of the random source and
  returns no changed clone.
\<close>

theorem grow_formula:
  "grow c days =
     (min (day0_density c * exp (growth_rate c * days * 24)) 8000000,
      max 60 (viability c - days * 0.5))"
  by (simp add: grow_def Let_def mult.assoc)

text \<open>
  Claim C3. For every clone, number of days and outcome of the noise draw,
  \<open>produce_antibody\<close> is \<open>max 0.1 ((base_titer * days / 7) * (viability / 100) * noise)\<close>
  with the viability that \<open>grow\<close> returns; the result is at least 0.1, hence positive.
\<close>

theorem produce_antibody_formula_floor:
  "produce_antibody c days noise =
     max 0.1 ((base_titer c * days / 7) * (snd (grow c days) / 100) * noise)
   \<and> 0.1 \<le> produce_antibody c days noise
   \<and> 0 < produce_antibody c days noise"
proof -
  have eq: "produce_antibody c days noise =
     max 0.1 ((base_titer c * days / 7) * (snd (grow c days) / 100) * noise)"
    by (simp add: produce_antibody_def Let_def split_beta)
  have lo: "0.1 \<le> produce_antibody c days noise"
    unfolding eq by simp
  have "(0::real) < 0.1" by simp
  with lo have "0 < produce_antibody c days noise" by linarith
  with eq lo show ?thesis by blast
qed

text \<open>
  Claim C1. \<open>score\<close> is the sum \<open>0.40 * t + 0.25 * v + 0.10 * g + s + q + p\<close> rounded to three
  decimals, with \<open>t = min 1 (day7_titer / 5)\<close>, \<open>v = day7_viability / 100\<close>,
  \<open>g = min 1 (growth_rate / 0.045)\<close>, the bonuses 0.20 for a stable clone and 0.15 for
  the pattern \<open>Optimal\<close>, and the penalty -0.10 for an aggregation level strictly above
  5.0. An absent titer or viability contributes zero. Nothing clamps the total.
\<close>

theorem score_formula:
  "score c =
     (let t = (case day7_titer c of None \<Rightarrow> 0 | Some x \<Rightarrow> min 1.0 (x / 5.0));
          v = (case day7_viability c of None \<Rightarrow> 0 | Some x \<Rightarrow> x / 100);
          g = min 1.0 (growth_rate c / 0.045);
          s = (if stability c then 0.20 else 0);
          q = (if glycosylation_pattern c = ''Optimal'' then 0.15 else 0);
          p = (if aggregation_level c > 5.0 then - 0.10 else 0)
      in py_round (0.40 * t + 0.25 * v + 0.10 * g + s + q + p) 3)"
proof -
  have t: "(if truthy (day7_titer c) then min 1.0 (the (day7_titer c) / 5.0) else 0)
      = (case day7_titer c of None \<Rightarrow> 0 | Some x \<Rightarrow> min 1.0 (x / 5.0))"
    by (simp add: truthy_def split: option.splits)
  have v: "(if truthy (day7_viability c) then the (day7_viability c) / 100 else 0)
      = (case day7_viability c of None \<Rightarrow> 0 | Some x \<Rightarrow> x / 100)"
    by (simp add: truthy_def split: option.splits)
  show ?thesis
    unfolding score_def Let_def t v by (simp add: algebra_simps)
qed

text \<open>
  The score at concrete clones: an aggregation level of exactly 5.0 carries no
  penalty, one just above it does; a total above 1 is returned as it is; a titer and a
  viability of 0.0 score as absent ones do.
\<close>

lemma score_examples:
  "score (sample_clone\<lparr>aggregation_level := 5.0\<rparr>) = 0.417"
  "score (sample_clone\<lparr>aggregation_level := 5.001\<rparr>) = 0.317"
  "score (sample_clone\<lparr>growth_rate := 0.05, day7_viability := Some 98, day7_titer := Some 6\<rparr>) = 1.095"
  "score (sample_clone\<lparr>day7_viability := Some 0, day7_titer := Some 0\<rparr>) = score sample_clone"
  by (simp_all add: score_def sample_clone_fields truthy_def Let_def py_round_def
      round_half_even_def)

text \<open>
  Claim C8. For a clone with the intrinsic parameters of the constructor and days
  \<open>d1 \<le> d2\<close>, the density of \<open>grow\<close> does not decrease and stays at or below 8e6, the
  viability does not increase and stays at or above 60.
\<close>

theorem grow_monotone_bounded:
  assumes "intrinsic_ok c" and "d1 \<le> d2"
  shows "fst (grow c d1) \<le> fst (grow c d2) \<and>
         fst (grow c d1) \<le> 8000000 \<and> fst (grow c d2) \<le> 8000000 \<and>
         snd (grow c d2) \<le> snd (grow c d1) \<and>
         60 \<le> snd (grow c d1) \<and> 60 \<le> snd (grow c d2)"
proof -
  from assms(1) have g: "0 \<le> growth_rate c" and d: "0 \<le> day0_density c"
    by (simp_all add: intrinsic_ok_def)
  from g assms(2) have "growth_rate c * (d1 * 24) \<le> growth_rate c * (d2 * 24)"
    by (intro mult_left_mono) simp_all
  then have "exp (growth_rate c * (d1 * 24)) \<le> exp (growth_rate c * (d2 * 24))"
    by simp
  with d have "day0_density c * exp (growth_rate c * (d1 * 24))
      \<le> day0_density c * exp (growth_rate c * (d2 * 24))"
    by (rule mult_left_mono[rotated])
  then have dens: "fst (grow c d1) \<le> fst (grow c d2)"
    by (simp add: grow_def Let_def)
  have cap: "\<And>x. fst (grow c x) \<le> 8000000"
    by (simp add: grow_def Let_def)
  have floor: "\<And>x. 60 \<le> snd (grow c x)"
    by (simp add: grow_def Let_def)
  from assms(2) have viab: "snd (grow c d2) \<le> snd (grow c d1)"
    by (simp add: grow_def Let_def)
  from dens cap floor viab show ?thesis by blast
qed

theorem grow_monotone_bounded_witness:
  "intrinsic_ok sample_clone \<and> (3::real) \<le> 7
   \<and> fst (grow sample_clone 3) \<le> fst (grow sample_clone 7)
   \<and> fst (grow sample_clone 7) \<le> 8000000
   \<and> snd (grow sample_clone 7) \<le> snd (grow sample_clone 3)
   \<and> 60 \<le> snd (grow sample_clone 7)"
proof -
  have ok: "intrinsic_ok sample_clone"
    unfolding sample_clone_def by (rule CellLineClone_init_intrinsic_ok)
  from grow_monotone_bounded[OF ok, of 3 7] ok show ?thesis by simp
qed

subsection \<open>Clone identifiers\<close>

lemma digit_cases:
  assumes "d < (10::nat)"
  shows "d = 0 \<or> d = 1 \<or> d = 2 \<or> d = 3 \<or> d = 4 \<or> d = 5 \<or> d = 6 \<or> d = 7 \<or> d = 8 \<or> d = 9"
  using assms by arith

lemma digit_value_digit_char: "d < 10 \<Longrightarrow> digit_value (digit_char d) = d"
  using digit_cases[of d] by (auto simp: digit_value_def digit_char_def)

lemma is_digit_digit_char: "d < 10 \<Longrightarrow> is_digit (digit_char d)"
  using digit_cases[of d] by (auto simp: is_digit_def digit_char_def)

lemma decimal_value_snoc:
  "decimal_value (s @ [ch]) = 10 * decimal_value s + digit_value ch"
  by (simp add: decimal_value_def)

lemma decimal_value_digits: "decimal_value (digits n) = n"
proof (induction n rule: digits.induct)
  case (1 n)
  show ?case
  proof (cases "n < 10")
    case True
    then show ?thesis
      by (subst digits.simps) (simp add: decimal_value_def digit_value_digit_char)
  next
    case False
    with 1 have ih: "decimal_value (digits (n div 10)) = n div 10" by simp
    have "n mod 10 < 10" by simp
    then have dv: "digit_value (digit_char (n mod 10)) = n mod 10"
      by (rule digit_value_digit_char)
    from False show ?thesis
      by (subst digits.simps) (simp add: decimal_value_snoc ih dv)
  qed
qed

lemma decimal_value_zeros: "decimal_value (replicate k (CHR ''0'') @ s) = decimal_value s"
proof -
  have "foldl (\<lambda>acc ch. 10 * acc + digit_value ch) 0 (replicate k (CHR ''0'')) = 0"
    by (induction k) (simp_all add: digit_value_def)
  then show ?thesis by (simp add: decimal_value_def)
qed

lemma decimal_value_format_03d: "decimal_value (format_03d n) = n"
  by (simp add: format_03d_def Let_def decimal_value_zeros decimal_value_digits)

lemma inj_format_03d: "inj format_03d"
  by (rule inj_on_inverseI[where g = decimal_value]) (rule decimal_value_format_03d)

lemma digits_all_digit: "ch \<in> set (digits n) \<Longrightarrow> is_digit ch"
proof (induction n rule: digits.induct)
  case (1 n)
  show ?case
  proof (cases "n < 10")
    case True
    with 1(2) show ?thesis
      by (subst (asm) digits.simps) (simp add: is_digit_digit_char)
  next
    case False
    have "is_digit (digit_char (n mod 10))" by (rule is_digit_digit_char) simp
    with False 1 show ?thesis
      by (subst (asm) (2) digits.simps) auto
  qed
qed

lemma format_03d_all_digit: "ch \<in> set (format_03d n) \<Longrightarrow> is_digit ch"
proof -
  assume a: "ch \<in> set (format_03d n)"
  have z: "is_digit (CHR ''0'')" by (simp add: is_digit_def)
  from a have "ch = CHR ''0'' \<or> ch \<in> set (digits n)"
    by (auto simp: format_03d_def Let_def)
  with z show ?thesis by (auto dest: digits_all_digit)
qed

lemma length_format_03d: "length (format_03d n) = max 3 (length (digits n))"
  by (simp add: format_03d_def Let_def)

lemma format_examples:
  "format_03d 1 = ''001''" "format_03d 96 = ''096''" "format_03d 123 = ''123''"
  "format_03d 1000 = ''1000''"
  by code_simp+

lemma distinct_clone_ids:
  "distinct (map (\<lambda>i. ''Clone_'' @ format_03d (i + 1)) [0..<k])"
proof -
  have "inj_on (\<lambda>i. ''Clone_'' @ format_03d (i + 1)) (set [0..<k])"
    by (rule inj_onI) (auto dest: injD[OF inj_format_03d])
  then show ?thesis by (simp add: distinct_map)
qed

subsection \<open>The constructor of the campaign\<close>

text \<open>
  Claim C9. For a positive \<open>num_clones\<close> the constructor builds exactly \<open>num_clones\<close>
  clones, in the order of their indices, with pairwise different identifiers
  \<open>Clone_\<close> followed by the index from 1, written in decimal digits and zero-padded to
  at least three characters. Every clone has its base titer in [0.1, 6.0], growth rate
  in [0.015, 0.050], baseline viability in [60, 99], aggregation level in [0.5, 8.0]
  (for a draw of \<open>random()\<close> in the unit interval), the starting density 0.5e6 and no
  Day-3 or Day-7 observation.
\<close>

theorem generator_population:
  assumes "0 < n" and "\<forall>i<nat n. unit_interval (random_aggregation (rng i))"
  shows "\<exists>s. AutomatedScreening_init n pf rng now = Inr s
     \<and> length (clones s) = nat n
     \<and> distinct (map clone_id (clones s))
     \<and> (\<forall>i<nat n.
          clone_id (clones s ! i) = ''Clone_'' @ format_03d (i + 1)
        \<and> decimal_value (format_03d (i + 1)) = i + 1
        \<and> 3 \<le> length (format_03d (i + 1))
        \<and> (\<forall>ch\<in>set (format_03d (i + 1)). is_digit ch)
        \<and> 0.1 \<le> base_titer (clones s ! i) \<and> base_titer (clones s ! i) \<le> 6.0
        \<and> 0.015 \<le> growth_rate (clones s ! i) \<and> growth_rate (clones s ! i) \<le> 0.050
        \<and> 60 \<le> viability (clones s ! i) \<and> viability (clones s ! i) \<le> 99
        \<and> 0.5 \<le> aggregation_level (clones s ! i) \<and> aggregation_level (clones s ! i) \<le> 8.0
        \<and> day0_density (clones s ! i) = 500000
        \<and> day3_density (clones s ! i) = None \<and> day7_density (clones s ! i) = None
        \<and> day7_viability (clones s ! i) = None \<and> day7_titer (clones s ! i) = None)"
proof -
  define mk where "mk = (\<lambda>i. CellLineClone_init (''Clone_'' @ format_03d (i + 1)) ''CHO-K1'' (rng i))"
  define s where "s = \<lparr> num_clones = n, plate_format = pf, clones = map mk [0..<nat n],
    screening_log = [], start_date = now \<rparr>"
  have init: "AutomatedScreening_init n pf rng now = Inr s"
    by (simp add: AutomatedScreening_init_def s_def mk_def)
  have len: "length (clones s) = nat n"
    by (simp add: s_def)
  have "map clone_id (clones s) = map (\<lambda>i. ''Clone_'' @ format_03d (i + 1)) [0..<nat n]"
    by (simp add: s_def mk_def CellLineClone_init_observations)
  then have dist: "distinct (map clone_id (clones s))"
    by (simp only: distinct_clone_ids)
  have each: "clone_id (clones s ! i) = ''Clone_'' @ format_03d (i + 1)
        \<and> decimal_value (format_03d (i + 1)) = i + 1
        \<and> 3 \<le> length (format_03d (i + 1))
        \<and> (\<forall>ch\<in>set (format_03d (i + 1)). is_digit ch)
        \<and> 0.1 \<le> base_titer (clones s ! i) \<and> base_titer (clones s ! i) \<le> 6.0
        \<and> 0.015 \<le> growth_rate (clones s ! i) \<and> growth_rate (clones s ! i) \<le> 0.050
        \<and> 60 \<le> viability (clones s ! i) \<and> viability (clones s ! i) \<le> 99
        \<and> 0.5 \<le> aggregation_level (clones s ! i) \<and> aggregation_level (clones s ! i) \<le> 8.0
        \<and> day0_density (clones s ! i) = 500000
        \<and> day3_density (clones s ! i) = None \<and> day7_density (clones s ! i) = None
        \<and> day7_viability (clones s ! i) = None \<and> day7_titer (clones s ! i) = None"
    if i: "i < nat n" for i
  proof -
    from i have nth: "clones s ! i = mk i" by (simp add: s_def)
    have ok: "intrinsic_ok (mk i)"
      unfolding mk_def by (rule CellLineClone_init_intrinsic_ok)
    from assms(2) i have u: "unit_interval (random_aggregation (rng i))" by blast
    have agg: "0.5 \<le> aggregation_level (mk i)" "aggregation_level (mk i) \<le> 8.0"
      unfolding mk_def by (rule CellLineClone_init_aggregation[OF u])+
    have obs: "clone_id (mk i) = ''Clone_'' @ format_03d (i + 1)"
      "day3_density (mk i) = None" "day7_density (mk i) = None"
      "day7_viability (mk i) = None" "day7_titer (mk i) = None"
      unfolding mk_def by (rule CellLineClone_init_observations)+
    have fmt: "3 \<le> length (format_03d (i + 1))" by (simp add: length_format_03d)
    from ok agg obs fmt show ?thesis
      unfolding nth intrinsic_ok_def
      by (simp add: decimal_value_format_03d format_03d_all_digit)
  qed
  from init len dist each show ?thesis by blast
qed

theorem generator_population_witness:
  "(0::int) < 2
   \<and> unit_interval (random_aggregation (sample_rng 0))
   \<and> unit_interval (random_aggregation (sample_rng 1))
   \<and> (\<exists>s. AutomatedScreening_init 2 ''96-well'' sample_rng 0 = Inr s
        \<and> map clone_id (clones s) = [''Clone_001'', ''Clone_002'']
        \<and> distinct (map clone_id (clones s))
        \<and> map aggregation_level (clones s) = [2, 2]
        \<and> 0.5 \<le> aggregation_level (clones s ! 1) \<and> aggregation_level (clones s ! 1) \<le> 8.0)"
proof -
  have h: "\<forall>i<nat 2. unit_interval (random_aggregation (sample_rng i))"
    by (simp add: sample_rng_def sample_draws_def unit_interval_def)
  have f: "format_03d (Suc 0) = ''001''" "format_03d (Suc (Suc 0)) = ''002''" by code_simp+
  have u: "[0..<2] = [0, Suc 0]" by (simp add: upt_rec)
  from generator_population[of 2 sample_rng "''96-well''" 0, OF _ h]
  obtain s where s: "AutomatedScreening_init 2 ''96-well'' sample_rng 0 = Inr s"
    and d: "distinct (map clone_id (clones s))"
    and b: "0.5 \<le> aggregation_level (clones s ! 1) \<and> aggregation_level (clones s ! 1) \<le> 8.0"
    by force
  from s have ids: "map clone_id (clones s) = [''Clone_001'', ''Clone_002'']"
    by (auto simp: AutomatedScreening_init_def u f CellLineClone_init_observations)
  from s have ag: "map aggregation_level (clones s) = [2, 2]"
    by (auto simp: AutomatedScreening_init_def u CellLineClone_init_def Let_def uniform_def
      sample_rng_def sample_draws_def)
  from h s d b ids ag show ?thesis
    by (simp add: sample_rng_def sample_draws_def unit_interval_def)
qed

text \<open>
  Claim C5, as stated, fails: the constructor has no check of \<open>num_clones\<close>. With
  \<open>num_clones = 0\<close> it returns a campaign without clones.
\<close>

theorem constructor_accepts_zero_counterexample:
  "AutomatedScreening_init 0 ''96-well'' sample_rng 0 =
     Inr \<lparr> num_clones = 0, plate_format = ''96-well'', clones = [], screening_log = [],
           start_date = 0 \<rparr>"
  by (simp add: AutomatedScreening_init_def)

text \<open>
  Claim C5, amended. The constructor raises no error for any integer \<open>num_clones\<close>:
  it returns a campaign with \<open>nat num_clones\<close> clones, which is none for a
  \<open>num_clones\<close> of zero or less.
\<close>

theorem constructor_never_raises:
  "\<exists>s. AutomatedScreening_init n pf rng now = Inr s
      \<and> num_clones s = n
      \<and> length (clones s) = nat n
      \<and> clones s = map (\<lambda>i. CellLineClone_init (''Clone_'' @ format_03d (i + 1)) ''CHO-K1'' (rng i)) [0..<nat n]"
  by (simp add: AutomatedScreening_init_def)

subsection \<open>Selecting the top clones\<close>

lemma filter_take_prefix: "prefix (filter P (take k xs)) (filter P xs)"
proof -
  have "filter P xs = filter P (take k xs) @ filter P (drop k xs)"
    by (simp flip: filter_append)
  then show ?thesis by (metis prefixI)
qed

lemma nlargest_length: "length (nlargest n column df) = min (nat n) (length df)"
  by (simp add: nlargest_def)

lemma nlargest_descending:
  assumes "i \<le> j" and "j < length (nlargest n column df)"
  shows "column (nlargest n column df ! j) \<le> column (nlargest n column df ! i)"
proof -
  let ?f = "\<lambda>r. - column r"
  let ?xs = "sort_key ?f df"
  have "sorted (map ?f ?xs)" by (rule sorted_sort_key)
  then have "sorted (take (nat n) (map ?f ?xs))" by (rule sorted_wrt_take)
  then have srt: "sorted (map ?f (nlargest n column df))"
    by (simp add: nlargest_def take_map)
  from assms have "map ?f (nlargest n column df) ! i \<le> map ?f (nlargest n column df) ! j"
    using srt by (intro sorted_nth_mono) simp_all
  with assms show ?thesis by simp
qed

lemma nlargest_stable:
  "prefix (filter (\<lambda>r. column r = v) (nlargest n column df)) (filter (\<lambda>r. column r = v) df)"
proof -
  let ?f = "\<lambda>r. - column r"
  have "filter (\<lambda>r. ?f r = - v) (sort_key ?f df) = filter (\<lambda>r. ?f r = - v) df"
    by (rule sort_key_stable)
  then have eq: "filter (\<lambda>r. column r = v) (sort_key ?f df) = filter (\<lambda>r. column r = v) df"
    by simp
  have "prefix (filter (\<lambda>r. column r = v) (take (nat n) (sort_key ?f df)))
          (filter (\<lambda>r. column r = v) (sort_key ?f df))"
    by (rule filter_take_prefix)
  then show ?thesis by (simp add: nlargest_def eq)
qed

lemma nlargest_mset:
  "mset (nlargest n column df) + mset (drop (nat n) (sort_key (\<lambda>r. - column r) df)) = mset df"
proof -
  let ?xs = "sort_key (\<lambda>r. - column r) df"
  have "mset (take (nat n) ?xs) + mset (drop (nat n) ?xs) = mset (take (nat n) ?xs @ drop (nat n) ?xs)"
    by (simp only: mset_append)
  also have "\<dots> = mset ?xs" by simp
  also have "\<dots> = mset df" by simp
  finally show ?thesis by (simp add: nlargest_def)
qed

lemma nlargest_subset: "mset (nlargest n column df) \<subseteq># mset df"
  using nlargest_mset[of n column df] by (metis mset_subset_eq_add_left)

lemma nlargest_largest:
  assumes "r \<in> set (nlargest n column df)"
    and "r' \<in># mset df - mset (nlargest n column df)"
  shows "column r' \<le> column r"
proof -
  let ?f = "\<lambda>r. - column r"
  let ?xs = "sort_key ?f df"
  have "mset df - mset (nlargest n column df) = mset (drop (nat n) ?xs)"
    using nlargest_mset[of n column df] by (metis add_diff_cancel_left')
  with assms(2) have r': "r' \<in> set (drop (nat n) ?xs)" by simp
  from assms(1) have r: "r \<in> set (take (nat n) ?xs)" by (simp add: nlargest_def)
  have "sorted (map ?f (take (nat n) ?xs) @ map ?f (drop (nat n) ?xs))"
    by (simp only: map_append[symmetric] append_take_drop_id sorted_sort_key)
  then have "\<forall>a\<in>set (map ?f (take (nat n) ?xs)). \<forall>b\<in>set (map ?f (drop (nat n) ?xs)). a \<le> b"
    unfolding sorted_append by blast
  with r r' have "?f r \<le> ?f r'" by (simp only: set_map) blast
  then show ?thesis by simp
qed

text \<open>
  Claim C4. For a result table of \<open>m\<close> rows and a count \<open>n\<close> with \<open>1 \<le> n \<le> m\<close>, the
  selection returns exactly \<open>n\<close> rows of the table in non-increasing order of the score.
  Among rows of equal score the selected ones are the first of the table, in the
  order of the table, and no row left out has a higher score than a selected one.
  The campaign is returned unchanged.
\<close>

theorem select_top_clones_top_n:
  assumes "1 \<le> n" and "n \<le> int (length (frame_rows df))"
  shows "\<exists>picked. select_top_clones s df n = Inr (s, Frame picked)
     \<and> length picked = nat n
     \<and> (\<forall>i j. i \<le> j \<and> j < length picked \<longrightarrow> Score (picked ! j) \<le> Score (picked ! i))
     \<and> (\<forall>v. prefix (filter (\<lambda>r. Score r = v) picked)
               (filter (\<lambda>r. Score r = v) (frame_rows df)))
     \<and> mset picked \<subseteq># mset (frame_rows df)
     \<and> (\<forall>r\<in>set picked. \<forall>r'\<in>#mset (frame_rows df) - mset picked. Score r' \<le> Score r)"
proof -
  from assms obtain rs where df: "df = Frame rs"
    by (cases df) auto
  then have sel: "select_top_clones s df n = Inr (s, Frame (nlargest n Score rs))"
    by (simp add: select_top_clones_def)
  from assms df have len: "length (nlargest n Score rs) = nat n"
    by (simp add: nlargest_length)
  have sub: "mset (nlargest n Score rs) \<subseteq># mset rs"
    by (rule nlargest_subset)
  from sel len sub show ?thesis
    unfolding df frame_rows.simps
    by (blast intro: nlargest_descending nlargest_stable nlargest_largest)
qed

theorem select_top_clones_top_n_witness:
  "(1::int) \<le> 2 \<and> 2 \<le> int (length (frame_rows sample_table))
   \<and> select_top_clones sample_campaign sample_table 2 =
       Inr (sample_campaign,
            Frame [sample_row ''Clone_002'' 0.9, sample_row ''Clone_001'' 0.5])"
proof -
  have l: "(2::int) \<le> int (length (frame_rows sample_table))"
    by (simp add: sample_table_def)
  from select_top_clones_top_n[of 2 sample_table sample_campaign, OF _ l]
  have "\<exists>picked. select_top_clones sample_campaign sample_table 2 =
      Inr (sample_campaign, Frame picked)"
    by auto
  moreover have "nlargest 2 Score (frame_rows sample_table) =
      [sample_row ''Clone_002'' 0.9, sample_row ''Clone_001'' 0.5]"
    by (simp add: nlargest_def sample_table_def sample_row_def)
  ultimately show ?thesis using l
    by (auto simp: select_top_clones_def sample_table_def)
qed

text \<open>
  Claim C6, as stated, fails: \<open>select_top_clones\<close> has no check of \<open>n\<close>. On a campaign
  of one clone, a count of 5 selects the one row of the table and a count of 0 selects
  no row, neither with an error.
\<close>

theorem select_out_of_range_counterexample:
  "num_clones sample_campaign = 1
   \<and> select_top_clones sample_campaign (Frame [sample_row ''Clone_001'' 0.5]) 5 =
       Inr (sample_campaign, Frame [sample_row ''Clone_001'' 0.5])
   \<and> select_top_clones sample_campaign (Frame [sample_row ''Clone_001'' 0.5]) 0 =
       Inr (sample_campaign, Frame [])"
  by (simp add: select_top_clones_def nlargest_def sample_campaign_def)

text \<open>
  Claim C6, amended. For a count \<open>n\<close> outside the range from 1 to \<open>num_clones\<close> the
  selection raises no validation error and returns the campaign unchanged. On every
  table that has its columns, with or without rows, it returns the top rows of the
  table, as many as \<open>n\<close> and the table allow: they are rows of the table, in
  non-increasing order of the score, ties in the order of the table, and no row left out
  has a higher score than a selected one; there is no row for \<open>n \<le> 0\<close> and every row of
  the table for an \<open>n\<close> of at least its length. Only on the frame without columns does
  the call fail, with the \<open>KeyError\<close> of the missing column, whatever \<open>n\<close> is.
\<close>

theorem select_out_of_range:
  assumes "n \<le> 0 \<or> num_clones s < n"
  shows "\<exists>picked.
       select_top_clones s df n =
         (if df = Empty_Frame then Inl KeyError else Inr (s, Frame picked))
     \<and> length picked = min (nat n) (length (frame_rows df))
     \<and> (\<forall>i j. i \<le> j \<and> j < length picked \<longrightarrow> Score (picked ! j) \<le> Score (picked ! i))
     \<and> (\<forall>v. prefix (filter (\<lambda>r. Score r = v) picked)
               (filter (\<lambda>r. Score r = v) (frame_rows df)))
     \<and> mset picked \<subseteq># mset (frame_rows df)
     \<and> (\<forall>r\<in>set picked. \<forall>r'\<in>#mset (frame_rows df) - mset picked. Score r' \<le> Score r)
     \<and> (if n \<le> 0 then picked = [] else True)
     \<and> (if int (length (frame_rows df)) \<le> n then mset picked = mset (frame_rows df) else True)"
proof -
  define rs where "rs = frame_rows df"
  have sel: "select_top_clones s df n =
      (if df = Empty_Frame then Inl KeyError else Inr (s, Frame (nlargest n Score rs)))"
    by (cases df) (simp_all add: select_top_clones_def rs_def)
  have len: "length (nlargest n Score rs) = min (nat n) (length rs)"
    by (rule nlargest_length)
  have sub: "mset (nlargest n Score rs) \<subseteq># mset rs"
    by (rule nlargest_subset)
  have none: "if n \<le> 0 then nlargest n Score rs = [] else True"
    by (simp add: nlargest_def)
  have all: "if int (length rs) \<le> n then mset (nlargest n Score rs) = mset rs else True"
    by (simp add: nlargest_def)
  have desc: "\<forall>i j. i \<le> j \<and> j < length (nlargest n Score rs)
      \<longrightarrow> Score (nlargest n Score rs ! j) \<le> Score (nlargest n Score rs ! i)"
    by (blast intro: nlargest_descending)
  have ties: "\<forall>v. prefix (filter (\<lambda>r. Score r = v) (nlargest n Score rs))
      (filter (\<lambda>r. Score r = v) rs)"
    by (blast intro: nlargest_stable)
  have largest: "\<forall>r\<in>set (nlargest n Score rs).
      \<forall>r'\<in>#mset rs - mset (nlargest n Score rs). Score r' \<le> Score r"
    by (blast intro: nlargest_largest)
  from sel len desc ties sub largest none all show ?thesis
    unfolding rs_def by blast
qed

theorem select_out_of_range_witness:
  "num_clones sample_campaign < 2 \<and> num_clones sample_campaign < 7
   \<and> select_top_clones sample_campaign sample_table 2 =
       Inr (sample_campaign,
         Frame [sample_row ''Clone_002'' 0.9, sample_row ''Clone_001'' 0.5])
   \<and> select_top_clones sample_campaign sample_table 7 =
       Inr (sample_campaign,
         Frame [sample_row ''Clone_002'' 0.9, sample_row ''Clone_001'' 0.5,
                sample_row ''Clone_003'' 0.5])
   \<and> select_top_clones sample_campaign (Frame []) 7 = Inr (sample_campaign, Frame [])
   \<and> select_top_clones sample_campaign Empty_Frame 7 = Inl KeyError"
proof -
  have r: "num_clones sample_campaign < 2" "num_clones sample_campaign < 7"
    by (simp_all add: sample_campaign_def)
  have ne: "sample_table \<noteq> Empty_Frame" by (simp add: sample_table_def)
  from select_out_of_range[of 2 sample_campaign sample_table] r ne
  have two: "\<exists>picked. select_top_clones sample_campaign sample_table 2 =
      Inr (sample_campaign, Frame picked)"
    by auto
  from select_out_of_range[of 7 sample_campaign sample_table] r ne
  have seven: "\<exists>picked. select_top_clones sample_campaign sample_table 7 =
      Inr (sample_campaign, Frame picked)"
    by auto
  from select_out_of_range[of 7 sample_campaign "Frame []"] r
  have norows: "select_top_clones sample_campaign (Frame []) 7 = Inr (sample_campaign, Frame [])"
    by auto
  from select_out_of_range[of 7 sample_campaign Empty_Frame] r
  have nocols: "select_top_clones sample_campaign Empty_Frame 7 = Inl KeyError"
    by auto
  have v2: "nlargest 2 Score (frame_rows sample_table) =
      [sample_row ''Clone_002'' 0.9, sample_row ''Clone_001'' 0.5]"
    by (simp add: nlargest_def sample_table_def sample_row_def)
  have v7: "nlargest 7 Score (frame_rows sample_table) =
      [sample_row ''Clone_002'' 0.9, sample_row ''Clone_001'' 0.5, sample_row ''Clone_003'' 0.5]"
    by (simp add: nlargest_def sample_table_def sample_row_def)
  from two v2 have e2: "select_top_clones sample_campaign sample_table 2 =
      Inr (sample_campaign,
        Frame [sample_row ''Clone_002'' 0.9, sample_row ''Clone_001'' 0.5])"
    by (auto simp: select_top_clones_def sample_table_def)
  from seven v7 have e7: "select_top_clones sample_campaign sample_table 7 =
      Inr (sample_campaign,
        Frame [sample_row ''Clone_002'' 0.9, sample_row ''Clone_001'' 0.5,
               sample_row ''Clone_003'' 0.5])"
    by (auto simp: select_top_clones_def sample_table_def)
  from r e2 e7 norows nocols show ?thesis by simp
qed

subsection \<open>The loops of the campaign steps\<close>

lemma fst_day_3_loop:
  "fst (day_3_loop cs slog) = map (\<lambda>c. c\<lparr>day3_density := Some (fst (grow c 3))\<rparr>) cs"
  by (induction cs arbitrary: slog) (simp_all add: split_beta Let_def)

lemma length_snd_day_3_loop:
  "length (snd (day_3_loop cs slog)) = length slog + length cs"
  by (induction cs arbitrary: slog) (simp_all add: split_beta Let_def)

lemma length_day_0_loop: "length (day_0_loop cs slog) = length slog + length cs"
  by (induction cs arbitrary: slog) simp_all

lemma fst_day_7_loop:
  "fst (day_7_loop cs noise i) = map (\<lambda>(c, k). fst (harvest c (noise k))) (zip cs [i..<i + length cs])"
proof (induction cs arbitrary: i)
  case Nil
  show ?case by simp
next
  case (Cons c cs)
  have "[i..<i + length (c # cs)] = i # [Suc i..<Suc i + length cs]"
    by (simp add: upt_rec)
  then show ?case by (simp add: split_beta Let_def Cons.IH)
qed

lemma snd_day_7_loop:
  "snd (day_7_loop cs noise i) = map (\<lambda>(c, k). snd (harvest c (noise k))) (zip cs [i..<i + length cs])"
proof (induction cs arbitrary: i)
  case Nil
  show ?case by simp
next
  case (Cons c cs)
  have "[i..<i + length (c # cs)] = i # [Suc i..<Suc i + length cs]"
    by (simp add: upt_rec)
  then show ?case by (simp add: split_beta Let_def Cons.IH)
qed

lemma length_day_7_loop:
  "length (fst (day_7_loop cs noise i)) = length cs"
  "length (snd (day_7_loop cs noise i)) = length cs"
  by (simp_all add: fst_day_7_loop snd_day_7_loop)

lemma fst_harvest:
  "fst (harvest c x) =
     c\<lparr>day7_density := Some (fst (grow c 7)), day7_viability := Some (snd (grow c 7)),
       day7_titer := Some (produce_antibody c 7 x)\<rparr>"
  by (simp add: harvest_def split_beta Let_def)

lemma Score_harvest: "Score (snd (harvest c x)) = score (fst (harvest c x))"
  by (simp add: harvest_def split_beta Let_def)

lemma day_0_seed_plates_result:
  assumes "clones s \<noteq> []"
  shows "day_0_seed_plates s = Inr (s\<lparr>screening_log := day_0_loop (clones s) (screening_log s)\<rparr>)"
  using assms by (cases "clones s") (simp_all add: day_0_seed_plates_def Let_def)

lemma day_0_seed_plates_Inr:
  assumes "day_0_seed_plates s = Inr s'"
  shows "s' = s\<lparr>screening_log := day_0_loop (clones s) (screening_log s)\<rparr>"
  using assms by (cases "clones s") (simp_all add: day_0_seed_plates_def Let_def)

lemma day_3_feed_and_sample_result:
  "day_3_feed_and_sample s =
     Inr (s\<lparr>clones := map (\<lambda>c. c\<lparr>day3_density := Some (fst (grow c 3))\<rparr>) (clones s),
            screening_log := snd (day_3_loop (clones s) (screening_log s))\<rparr>)"
  by (simp add: day_3_feed_and_sample_def split_beta fst_day_3_loop)

lemma day_7_harvest_and_analyze_result:
  assumes "clones s \<noteq> []"
  shows "day_7_harvest_and_analyze s noise =
     Inr (s\<lparr>clones := fst (day_7_loop (clones s) noise 0)\<rparr>,
          Frame (snd (day_7_loop (clones s) noise 0)))"
proof -
  from assms have "length (snd (day_7_loop (clones s) noise 0)) \<noteq> 0"
    by (simp add: length_day_7_loop)
  then have "snd (day_7_loop (clones s) noise 0) \<noteq> []" by auto
  then show ?thesis
    by (simp add: day_7_harvest_and_analyze_def pd_DataFrame_def split_beta Let_def)
qed

lemma day_7_harvest_and_analyze_Inr:
  assumes "day_7_harvest_and_analyze s noise = Inr (s', df)"
  shows "s' = s\<lparr>clones := fst (day_7_loop (clones s) noise 0)\<rparr>"
    and "df = Frame (snd (day_7_loop (clones s) noise 0))"
    and "snd (day_7_loop (clones s) noise 0) \<noteq> []"
  using assms
  by (auto simp: day_7_harvest_and_analyze_def pd_DataFrame_def split_beta Let_def
      split: if_splits)

lemma select_top_clones_Inr:
  assumes "select_top_clones s df n = Inr (s', picked)"
  shows "s' = s" and "picked = Frame (nlargest n Score (frame_rows df))"
  using assms by (auto simp: select_top_clones_def Let_def split: DataFrame.splits)

lemma run_full_screening_campaign_Inr:
  assumes "run_full_screening_campaign s noise = Inr (s', df, picked)"
  shows "\<exists>s0 s3. day_0_seed_plates s = Inr s0 \<and> day_3_feed_and_sample s0 = Inr s3
           \<and> day_7_harvest_and_analyze s3 noise = Inr (s', df)
           \<and> select_top_clones s' df 10 = Inr (s', picked)"
proof -
  from assms obtain s0 where s0: "day_0_seed_plates s = Inr s0"
    by (cases "day_0_seed_plates s") (simp_all add: run_full_screening_campaign_def)
  from assms s0 obtain s3 where s3: "day_3_feed_and_sample s0 = Inr s3"
    by (cases "day_3_feed_and_sample s0") (simp_all add: run_full_screening_campaign_def)
  from assms s0 s3 obtain s7 df7 where s7: "day_7_harvest_and_analyze s3 noise = Inr (s7, df7)"
    by (cases "day_7_harvest_and_analyze s3 noise")
       (auto simp: run_full_screening_campaign_def)
  from assms s0 s3 s7 obtain s8 p8 where s8: "select_top_clones s7 df7 10 = Inr (s8, p8)"
    by (cases "select_top_clones s7 df7 10")
       (auto simp: run_full_screening_campaign_def)
  from s8 have e: "s8 = s7" by (rule select_top_clones_Inr)
  from assms s0 s3 s7 s8 have "s' = s8" "df = df7" "picked = p8"
    by (auto simp: run_full_screening_campaign_def split: if_splits)
  with s0 s3 s7 s8 e show ?thesis by auto
qed

lemma sample_campaign_created:
  "AutomatedScreening_init 1 ''96-well'' sample_rng 0 = Inr sample_campaign"
proof -
  have "format_03d (Suc 0) = ''001''" by code_simp
  then show ?thesis
    by (simp add: AutomatedScreening_init_def sample_campaign_def sample_clone_def sample_rng_def)
qed

lemma sample_clone_harvested:
  "day7_viability (fst (harvest sample_clone 1)) = Some 91.5"
  "day7_titer (fst (harvest sample_clone 1)) = Some 2.745"
  by (simp_all add: fst_harvest produce_antibody_def grow_def split_beta Let_def
      sample_clone_def CellLineClone_init_def sample_draws_def)

lemma sample_clone_harvested_score: "score (fst (harvest sample_clone 1)) = 0.865"
proof -
  have g: "growth_rate (fst (harvest sample_clone 1)) = 0.03"
    "stability (fst (harvest sample_clone 1))"
    "glycosylation_pattern (fst (harvest sample_clone 1)) = ''Optimal''"
    "aggregation_level (fst (harvest sample_clone 1)) = 2"
    by (simp_all add: fst_harvest sample_clone_def CellLineClone_init_def sample_draws_def
        Let_def choice_def uniform_def)
  show ?thesis
    by (simp add: score_def sample_clone_harvested g truthy_def Let_def py_round_def
        round_half_even_def)
qed

lemma sample_campaign_harvested:
  "day_7_harvest_and_analyze sample_campaign unit_noise =
     Inr (sample_harvested, Frame [snd (harvest sample_clone 1)])"
  by (simp add: day_7_harvest_and_analyze_def pd_DataFrame_def sample_campaign_def
      sample_harvested_def unit_noise_def split_beta Let_def)

subsection \<open>The range of the score\<close>

lemma clone_ok_init: "clone_ok (CellLineClone_init cid pl dr)"
  by (simp add: clone_ok_def CellLineClone_init_intrinsic_ok observations_ok_def
      CellLineClone_init_observations)

lemma clone_ok_fed: "clone_ok c \<Longrightarrow> clone_ok (c\<lparr>day3_density := d\<rparr>)"
  by (simp add: clone_ok_def intrinsic_ok_def observations_ok_def)

lemma clone_ok_harvest:
  assumes "clone_ok c"
  shows "clone_ok (fst (harvest c x))"
proof -
  from assms have v: "60 \<le> viability c" "viability c \<le> 99"
    by (simp_all add: clone_ok_def intrinsic_ok_def)
  then have g: "60 \<le> snd (grow c 7)" "snd (grow c 7) \<le> 99"
    by (simp_all add: grow_def Let_def)
  have t: "0.1 \<le> produce_antibody c 7 x"
    by (simp add: produce_antibody_def split_beta Let_def)
  from assms g t show ?thesis
    by (simp add: fst_harvest clone_ok_def intrinsic_ok_def observations_ok_def)
qed

lemma score_in_range:
  assumes "clone_ok c"
  shows "- 0.1 \<le> score c \<and> score c \<le> 1.1"
proof -
  define titer_score where
    "titer_score = (if truthy (day7_titer c) then min 1.0 (the (day7_titer c) / 5.0) else 0)"
  define viability_score where
    "viability_score = (if truthy (day7_viability c) then the (day7_viability c) / 100 else 0)"
  define growth_score where "growth_score = min 1.0 (growth_rate c / 0.045)"
  define stability_bonus :: real where "stability_bonus = (if stability c then 0.2 else 0)"
  define quality_bonus :: real where
    "quality_bonus = (if glycosylation_pattern c = ''Optimal'' then 0.15 else 0)"
  define quality_penalty :: real where
    "quality_penalty = (if 5.0 < aggregation_level c then - 0.1 else 0)"
  define total_score where
    "total_score = titer_score * 0.40 + viability_score * 0.25 + growth_score * 0.10
            + stability_bonus + quality_bonus + quality_penalty"
  have sc: "score c = py_round total_score 3"
    by (simp add: score_def Let_def total_score_def titer_score_def viability_score_def
        growth_score_def stability_bonus_def quality_bonus_def quality_penalty_def)
  from assms have obs: "observations_ok c" and intr: "intrinsic_ok c"
    by (simp_all add: clone_ok_def)
  from obs have t: "0 \<le> titer_score \<and> titer_score \<le> 1"
    by (auto simp: titer_score_def observations_ok_def truthy_def split: option.splits)
  from obs have v: "0 \<le> viability_score \<and> viability_score \<le> 1"
    by (auto simp: viability_score_def observations_ok_def truthy_def split: option.splits)
  from intr have g: "0 \<le> growth_score \<and> growth_score \<le> 1"
    by (simp add: growth_score_def intrinsic_ok_def)
  have s: "0 \<le> stability_bonus \<and> stability_bonus \<le> 0.2"
    by (simp add: stability_bonus_def)
  have q: "0 \<le> quality_bonus \<and> quality_bonus \<le> 0.15"
    by (simp add: quality_bonus_def)
  have p: "- 0.1 \<le> quality_penalty \<and> quality_penalty \<le> 0"
    by (simp add: quality_penalty_def)
  define a where "a = titer_score * 0.40"
  define b where "b = viability_score * 0.25"
  define d where "d = growth_score * 0.10"
  from t have a: "0 \<le> a \<and> a \<le> 2 / 5" by (simp add: a_def)
  from v have b: "0 \<le> b \<and> b \<le> 1 / 4" by (simp add: b_def)
  from g have d: "0 \<le> d \<and> d \<le> 1 / 10" by (simp add: d_def)
  from s have s': "0 \<le> stability_bonus \<and> stability_bonus \<le> 1 / 5" by simp
  from q have q': "0 \<le> quality_bonus \<and> quality_bonus \<le> 3 / 20" by simp
  from p have p': "- (1 / 10) \<le> quality_penalty \<and> quality_penalty \<le> 0" by simp
  have tot: "total_score = a + b + d + stability_bonus + quality_bonus + quality_penalty"
    by (simp only: total_score_def a_def b_def d_def)
  from a b d s' q' p' have "- (1 / 10) \<le> total_score" "total_score \<le> 11 / 10"
    unfolding tot by linarith+
  then have lo: "- 0.1 \<le> total_score" and hi: "total_score \<le> 1.1"
    by simp_all
  from lo have lo': "of_int (- 100) / 10 ^ 3 \<le> total_score" by simp
  from hi have hi': "total_score \<le> of_int 1100 / 10 ^ 3" by simp
  from py_round_bounds[OF lo' hi'] show ?thesis
    unfolding sc by simp
qed

lemma clone_ok_day_7_loop:
  "list_all clone_ok cs \<Longrightarrow> list_all clone_ok (fst (day_7_loop cs noise i))"
  by (induction cs arbitrary: i) (simp_all add: split_beta Let_def clone_ok_harvest)

lemma clones_ok_created:
  assumes "AutomatedScreening_init n pf rng now = Inr s"
  shows "list_all clone_ok (clones s)"
  using assms by (auto simp: AutomatedScreening_init_def list_all_iff clone_ok_init)

lemma clones_ok_seeded:
  assumes "list_all clone_ok (clones s)" and "day_0_seed_plates s = Inr s'"
  shows "list_all clone_ok (clones s')"
  using assms(1) by (simp add: day_0_seed_plates_Inr[OF assms(2)])

lemma clones_ok_fed:
  assumes "list_all clone_ok (clones s)" and "day_3_feed_and_sample s = Inr s'"
  shows "list_all clone_ok (clones s')"
  using assms by (auto simp: day_3_feed_and_sample_result list_all_iff clone_ok_fed)

lemma clones_ok_harvested:
  assumes "list_all clone_ok (clones s)" and "day_7_harvest_and_analyze s noise = Inr (s', df)"
  shows "list_all clone_ok (clones s')"
  using assms(1) by (simp add: day_7_harvest_and_analyze_Inr(1)[OF assms(2)] clone_ok_day_7_loop)

lemma clones_ok_reachable: "reachable s \<Longrightarrow> list_all clone_ok (clones s)"
proof (induction rule: reachable.induct)
  case (created n pf rng now s)
  then show ?case by (rule clones_ok_created)
next
  case (seeded s s')
  then show ?case by (blast intro: clones_ok_seeded)
next
  case (fed s s')
  then show ?case by (blast intro: clones_ok_fed)
next
  case (harvested s noise s' df)
  then show ?case by (blast intro: clones_ok_harvested)
next
  case (selected s df n s' picked)
  from selected(2) have "s' = s" by (rule select_top_clones_Inr)
  with selected(3) show ?case by simp
next
  case (finished s noise s' df picked)
  from run_full_screening_campaign_Inr[OF finished(2)]
  obtain s0 s3 where "day_0_seed_plates s = Inr s0" "day_3_feed_and_sample s0 = Inr s3"
    "day_7_harvest_and_analyze s3 noise = Inr (s', df)" by blast
  with finished(3) show ?case
    by (blast intro: clones_ok_seeded clones_ok_fed clones_ok_harvested)
qed

text \<open>
  Claim C10. Every clone of a campaign that the constructor has built, in any state
  that calls of the methods lead to (Day-7 observations absent or stored), has a score
  of at least -0.1 and at most 1.1.
\<close>

theorem score_range_reachable:
  assumes "reachable s" and "c \<in> set (clones s)"
  shows "- 0.1 \<le> score c \<and> score c \<le> 1.1"
proof -
  from assms(1) have "list_all clone_ok (clones s)" by (rule clones_ok_reachable)
  with assms(2) have "clone_ok c" by (simp add: list_all_iff)
  then show ?thesis by (rule score_in_range)
qed

theorem score_range_reachable_witness:
  "reachable sample_harvested
   \<and> fst (harvest sample_clone 1) \<in> set (clones sample_harvested)
   \<and> - 0.1 \<le> score (fst (harvest sample_clone 1))
   \<and> score (fst (harvest sample_clone 1)) \<le> 1.1"
proof -
  have r0: "reachable sample_campaign"
    by (rule reachable.created[OF sample_campaign_created])
  have r7: "reachable sample_harvested"
    by (rule reachable.harvested[OF r0 sample_campaign_harvested])
  have m: "fst (harvest sample_clone 1) \<in> set (clones sample_harvested)"
    by (simp add: sample_harvested_def)
  from score_range_reachable[OF r7 m] r7 m show ?thesis by simp
qed

subsection \<open>The order of the campaign steps\<close>

text \<open>
  Claim C7, as stated, fails: no method checks what ran before it. On a new campaign
  of one clone the Day-7 step runs before any Day-3 step, with no error, and stores the
  Day-7 observations; the Day-3 step then runs on the harvested campaign.
\<close>

theorem harvest_before_feed_counterexample:
  "AutomatedScreening_init 1 ''96-well'' sample_rng 0 = Inr sample_campaign
   \<and> map day3_density (clones sample_campaign) = [None]
   \<and> map day7_titer (clones sample_campaign) = [None]
   \<and> day_7_harvest_and_analyze sample_campaign unit_noise =
       Inr (sample_harvested, Frame [snd (harvest sample_clone 1)])
   \<and> map day3_density (clones sample_harvested) = [None]
   \<and> map day7_titer (clones sample_harvested) = [Some 2.745]
   \<and> \<not> isl (day_3_feed_and_sample sample_harvested)"
proof -
  have a: "map day3_density (clones sample_campaign) = [None]"
    "map day7_titer (clones sample_campaign) = [None]"
    by (simp_all add: sample_campaign_def sample_clone_def CellLineClone_init_observations)
  have b: "map day3_density (clones sample_harvested) = [None]"
    by (simp add: sample_harvested_def fst_harvest sample_clone_def
        CellLineClone_init_observations)
  have c: "map day7_titer (clones sample_harvested) = [Some 2.745]"
    by (simp add: sample_harvested_def sample_clone_harvested)
  have d: "\<not> isl (day_3_feed_and_sample sample_harvested)"
    by (simp add: day_3_feed_and_sample_result)
  from sample_campaign_created sample_campaign_harvested a b c d show ?thesis by simp
qed

text \<open>
  Claim C7, amended. In every state of a campaign with at least one clone, whatever
  ran before, the Day-0 step succeeds and appends one log entry per clone, the Day-3
  step succeeds and stores the Day-3 density of every clone, the Day-7 step succeeds,
  stores the three Day-7 observations of every clone and returns one row per clone, and
  the selection on that table succeeds. \<open>run_full_screening_campaign\<close> is these steps
  in the order Day 0, Day 3, Day 7, selection of ten.
\<close>

theorem steps_succeed_in_any_state:
  assumes "clones s \<noteq> []"
  shows "(\<exists>s'. day_0_seed_plates s = Inr s' \<and> clones s' = clones s
            \<and> length (screening_log s') = length (screening_log s) + length (clones s))
     \<and> (\<exists>s'. day_3_feed_and_sample s = Inr s'
            \<and> map clone_id (clones s') = map clone_id (clones s)
            \<and> list_all (\<lambda>c. day3_density c \<noteq> None) (clones s'))
     \<and> (\<exists>s' df. day_7_harvest_and_analyze s noise = Inr (s', df)
            \<and> length (frame_rows df) = length (clones s)
            \<and> map clone_id (clones s') = map clone_id (clones s)
            \<and> list_all (\<lambda>c. day7_density c \<noteq> None \<and> day7_viability c \<noteq> None
                              \<and> day7_titer c \<noteq> None) (clones s')
            \<and> (\<exists>picked. select_top_clones s' df n = Inr (s', picked)))
     \<and> (\<exists>s0 s3 s7 df picked.
            day_0_seed_plates s = Inr s0 \<and> day_3_feed_and_sample s0 = Inr s3
          \<and> day_7_harvest_and_analyze s3 noise = Inr (s7, df)
          \<and> select_top_clones s7 df 10 = Inr (s7, picked)
          \<and> run_full_screening_campaign s noise =
              (if num_clones s = 0 then Inl ZeroDivisionError else Inr (s7, df, picked)))"
proof -
  let ?fed = "map (\<lambda>c. c\<lparr>day3_density := Some (fst (grow c 3))\<rparr>)"
  define s0 where "s0 = s\<lparr>screening_log := day_0_loop (clones s) (screening_log s)\<rparr>"
  have d0: "day_0_seed_plates s = Inr s0"
    unfolding s0_def by (rule day_0_seed_plates_result[OF assms])
  have p0: "clones s0 = clones s"
    "length (screening_log s0) = length (screening_log s) + length (clones s)"
    "num_clones s0 = num_clones s"
    by (simp_all add: s0_def length_day_0_loop)
  have d3: "day_3_feed_and_sample t =
      Inr (t\<lparr>clones := ?fed (clones t),
             screening_log := snd (day_3_loop (clones t) (screening_log t))\<rparr>)" for t
    by (rule day_3_feed_and_sample_result)
  have p3: "map clone_id (?fed cs) = map clone_id cs"
    "list_all (\<lambda>c. day3_density c \<noteq> None) (?fed cs)" for cs
    by (simp_all add: list_all_iff comp_def)
  have d7: "day_7_harvest_and_analyze t noise =
      Inr (t\<lparr>clones := fst (day_7_loop (clones t) noise 0)\<rparr>,
           Frame (snd (day_7_loop (clones t) noise 0)))"
    if "clones t \<noteq> []" for t
    using that by (rule day_7_harvest_and_analyze_result)
  have ids7: "map clone_id (fst (day_7_loop cs noise i)) = map clone_id cs" for cs i
    by (induction cs arbitrary: i) (simp_all add: split_beta Let_def fst_harvest)
  have obs7: "list_all (\<lambda>c. day7_density c \<noteq> None \<and> day7_viability c \<noteq> None
                              \<and> day7_titer c \<noteq> None) (fst (day_7_loop cs noise i))" for cs i
    by (induction cs arbitrary: i) (simp_all add: split_beta Let_def fst_harvest)
  have sel: "select_top_clones t (Frame rs) k = Inr (t, Frame (nlargest k Score rs))" for t rs k
    by (simp add: select_top_clones_def)
  have one: "\<exists>s'. day_0_seed_plates s = Inr s' \<and> clones s' = clones s
            \<and> length (screening_log s') = length (screening_log s) + length (clones s)"
    using d0 p0 by blast
  have two: "\<exists>s'. day_3_feed_and_sample s = Inr s'
            \<and> map clone_id (clones s') = map clone_id (clones s)
            \<and> list_all (\<lambda>c. day3_density c \<noteq> None) (clones s')"
    using p3[of "clones s"] by (simp add: d3)
  have three: "\<exists>s' df. day_7_harvest_and_analyze s noise = Inr (s', df)
            \<and> length (frame_rows df) = length (clones s)
            \<and> map clone_id (clones s') = map clone_id (clones s)
            \<and> list_all (\<lambda>c. day7_density c \<noteq> None \<and> day7_viability c \<noteq> None
                              \<and> day7_titer c \<noteq> None) (clones s')
            \<and> (\<exists>picked. select_top_clones s' df n = Inr (s', picked))"
    using assms ids7[of "clones s" 0] obs7[of "clones s" 0]
    by (simp add: d7 length_day_7_loop sel)
  define s3 where "s3 = s0\<lparr>clones := ?fed (clones s0),
             screening_log := snd (day_3_loop (clones s0) (screening_log s0))\<rparr>"
  have e3: "day_3_feed_and_sample s0 = Inr s3"
    unfolding s3_def by (rule d3)
  from assms have c3: "clones s3 \<noteq> []" by (simp add: s3_def p0)
  define s7 where "s7 = s3\<lparr>clones := fst (day_7_loop (clones s3) noise 0)\<rparr>"
  define rs where "rs = snd (day_7_loop (clones s3) noise 0)"
  define df where "df = Frame rs"
  have e7: "day_7_harvest_and_analyze s3 noise = Inr (s7, df)"
    unfolding s7_def df_def rs_def by (rule d7[OF c3])
  have e8: "select_top_clones s7 df 10 = Inr (s7, Frame (nlargest 10 Score rs))"
    unfolding df_def by (rule sel)
  have nc: "num_clones s7 = num_clones s"
    by (simp add: s7_def s3_def p0)
  have run: "run_full_screening_campaign s noise =
      (if num_clones s = 0 then Inl ZeroDivisionError
       else Inr (s7, df, Frame (nlargest 10 Score rs)))"
    by (simp add: run_full_screening_campaign_def d0 e3 e7 e8 nc)
  from d0 e3 e7 e8 run have four: "\<exists>s0 s3 s7 df picked.
            day_0_seed_plates s = Inr s0 \<and> day_3_feed_and_sample s0 = Inr s3
          \<and> day_7_harvest_and_analyze s3 noise = Inr (s7, df)
          \<and> select_top_clones s7 df 10 = Inr (s7, picked)
          \<and> run_full_screening_campaign s noise =
              (if num_clones s = 0 then Inl ZeroDivisionError else Inr (s7, df, picked))"
    by blast
  from one two three four show ?thesis by blast
qed

theorem steps_succeed_in_any_state_witness:
  "clones sample_harvested \<noteq> []
   \<and> \<not> isl (day_0_seed_plates sample_harvested)
   \<and> \<not> isl (day_3_feed_and_sample sample_harvested)
   \<and> \<not> isl (day_7_harvest_and_analyze sample_harvested unit_noise)
   \<and> \<not> isl (run_full_screening_campaign sample_harvested unit_noise)"
proof -
  have ne: "clones sample_harvested \<noteq> []" by (simp add: sample_harvested_def)
  have nc: "num_clones sample_harvested \<noteq> 0"
    by (simp add: sample_harvested_def sample_campaign_def)
  from steps_succeed_in_any_state[OF ne, of unit_noise 10] ne nc show ?thesis
    by auto
qed

end
